theory Spec2Isabelle
  imports Main
begin

section \<open>Authentication service of the finance tracker backend\<close>

text \<open>
  The development embeds \<^verbatim>\<open>AuthService\<close> (signUp, signIn, refreshTokens, logout and the
  three private refresh-token helpers) together with the two tables of the migration
  \<^verbatim>\<open>20251003192917_create_auth_tables.sql\<close> that the service reads and writes.

  Three collaborators are libraries, not code of the repository, and are modelled by what
  the service observes of them:
  \<^item> \<^verbatim>\<open>bcryptjs\<close>: a salted hash. \<^verbatim>\<open>bcrypt.hash(s, rounds)\<close> draws a random salt; the
    hash value records the rounds and the salt, and \<^verbatim>\<open>bcrypt.compare(s, h)\<close> re-hashes
    \<^verbatim>\<open>s\<close> with the rounds and salt found in \<^verbatim>\<open>h\<close>. The hash is idealised as a free
    constructor (no collisions; the 72 byte input limit of bcrypt is not modelled).
  \<^item> \<^verbatim>\<open>@nestjs/jwt\<close>: a token is the signing key, the payload and the two timestamps;
    verification checks the key and then the expiry.
  \<^item> the Supabase client: every request answers with data or an error value and never
    throws (the service reads \<^verbatim>\<open>{ data, error }\<close> throughout); \<^verbatim>\<open>single()\<close> answers with
    an error unless exactly one row matches; an upsert without \<^verbatim>\<open>onConflict\<close> resolves
    conflicts on the primary key only. The client is taken to have full access to both
    tables: the row-level security policies of the migration are not modelled.

  Randomness (salts, generated UUIDs), the clock and storage outages are inputs of each
  call, collected in the record \<open>env\<close>. One call reads the clock once.
\<close>

subsection \<open>Strings that carry secrets: plain text, tokens, hashes\<close>

datatype jwt_payload =
    JWTPayload string string string string  \<comment> \<open>sub, email, firstName, lastName\<close>
  | RefreshJWTPayload string string         \<comment> \<open>sub, type\<close>

fun payload_sub :: "jwt_payload \<Rightarrow> string" where
  "payload_sub (JWTPayload sub _ _ _) = sub"
| "payload_sub (RefreshJWTPayload sub _) = sub"

text \<open>An access token has no \<^verbatim>\<open>type\<close> field: reading it gives \<^verbatim>\<open>undefined\<close>.\<close>

fun payload_type :: "jwt_payload \<Rightarrow> string option" where
  "payload_type (JWTPayload _ _ _ _) = None"
| "payload_type (RefreshJWTPayload _ t) = Some t"

datatype jsstring =
    Str string                            \<comment> \<open>any other string\<close>
  | Jwt string jwt_payload nat nat        \<comment> \<open>signing key, payload, iat, exp (seconds)\<close>
  | Bcrypt nat string jsstring            \<comment> \<open>rounds, salt, hashed secret\<close>

datatype exception =
    ConflictException string
  | BadRequestException string
  | UnauthorizedException string
  | JsonWebTokenError string
  | TokenExpiredError string

subsection \<open>bcryptjs\<close>

definition bcrypt_hash :: "jsstring \<Rightarrow> nat \<Rightarrow> string \<Rightarrow> jsstring" where
  "bcrypt_hash s rounds salt = Bcrypt rounds salt s"

definition bcrypt_compare :: "jsstring \<Rightarrow> jsstring \<Rightarrow> bool" where
  "bcrypt_compare s h =
     (case h of Bcrypt rounds salt _ \<Rightarrow> bcrypt_hash s rounds salt = h | _ \<Rightarrow> False)"

fun bcrypt_rounds :: "jsstring \<Rightarrow> nat option" where
  "bcrypt_rounds (Bcrypt rounds _ _) = Some rounds"
| "bcrypt_rounds _ = None"

fun bcrypt_salt :: "jsstring \<Rightarrow> string option" where
  "bcrypt_salt (Bcrypt _ salt _) = Some salt"
| "bcrypt_salt _ = None"

subsection \<open>JwtService\<close>

text \<open>\<^verbatim>\<open>expiresIn\<close> is given in seconds; the clock is in milliseconds as \<^verbatim>\<open>Date.now()\<close>.\<close>

definition jwt_sign :: "string \<Rightarrow> nat \<Rightarrow> jwt_payload \<Rightarrow> nat \<Rightarrow> jsstring" where
  "jwt_sign secret now_ms payload expiresIn =
     (let iat = now_ms div 1000 in Jwt secret payload iat (iat + expiresIn))"

definition jwt_verify :: "string \<Rightarrow> nat \<Rightarrow> jsstring \<Rightarrow> exception + jwt_payload" where
  "jwt_verify secret now_ms token =
     (case token of
        Jwt k payload iat exp \<Rightarrow>
          if k \<noteq> secret then Inl (JsonWebTokenError ''invalid signature'')
          else if exp \<le> now_ms div 1000 then Inl (TokenExpiredError ''jwt expired'')
          else Inr payload
      | _ \<Rightarrow> Inl (JsonWebTokenError ''jwt malformed''))"

subsection \<open>Tables\<close>

record SupabaseUser =
  u_id :: string
  u_email :: string
  u_password :: jsstring
  u_first_name :: string
  u_last_name :: string
  u_email_verified :: bool
  u_created_at :: nat
  u_updated_at :: nat

record RefreshTokenRecord =
  t_id :: string
  t_user_id :: string
  t_token_hash :: jsstring
  t_expires_at :: nat
  t_created_at :: nat

datatype SupabaseError = SupabaseError string string  \<comment> \<open>code, message\<close>

fun message :: "SupabaseError \<Rightarrow> string" where
  "message (SupabaseError _ m) = m"

text \<open>The answer to a request made while the database cannot be reached (HTTP 503).\<close>

definition unavailable :: SupabaseError where
  "unavailable = SupabaseError ''PGRST000'' ''Database connection error. Retrying the connection.''"

definition not_single_row :: SupabaseError where
  "not_single_row = SupabaseError ''PGRST116'' ''JSON object requested, multiple (or no) rows returned''"

definition unique_violation :: "string \<Rightarrow> SupabaseError" where
  "unique_violation c = SupabaseError ''23505'' (''duplicate key value violates unique constraint '' @ c)"

definition foreign_key_violation :: "string \<Rightarrow> SupabaseError" where
  "foreign_key_violation c = SupabaseError ''23503'' (''insert or update violates foreign key constraint '' @ c)"

text \<open>\<^verbatim>\<open>.select(...).eq(...).single()\<close>: the rows that pass the filters, which must be exactly one.\<close>

definition select_single :: "bool \<Rightarrow> ('a \<Rightarrow> bool) \<Rightarrow> 'a list \<Rightarrow> SupabaseError + 'a" where
  "select_single down P rows =
     (if down then Inl unavailable
      else case filter P rows of [r] \<Rightarrow> Inr r | _ \<Rightarrow> Inl not_single_row)"

text \<open>\<^verbatim>\<open>users\<close>: \<^verbatim>\<open>id UUID PRIMARY KEY\<close>, \<^verbatim>\<open>email VARCHAR(255) UNIQUE NOT NULL\<close>.\<close>

definition insert_user ::
  "bool \<Rightarrow> SupabaseUser \<Rightarrow> SupabaseUser list \<Rightarrow> (SupabaseError + SupabaseUser) \<times> SupabaseUser list" where
  "insert_user down r rows =
     (if down then (Inl unavailable, rows)
      else if u_id r \<in> set (map u_id rows) then (Inl (unique_violation ''users_pkey''), rows)
      else if u_email r \<in> set (map u_email rows) then (Inl (unique_violation ''users_email_key''), rows)
      else (Inr r, rows @ [r]))"

text \<open>
  \<^verbatim>\<open>refresh_tokens\<close>: \<^verbatim>\<open>id UUID PRIMARY KEY DEFAULT gen_random_uuid()\<close>,
  \<^verbatim>\<open>user_id UUID NOT NULL REFERENCES users(id)\<close>, \<^verbatim>\<open>UNIQUE(token_hash)\<close>. There is no
  uniqueness constraint on \<^verbatim>\<open>user_id\<close>. The service's upsert names no conflict target
  and sends no \<^verbatim>\<open>id\<close>, so the row gets a generated id and the statement is
  \<^verbatim>\<open>INSERT ... ON CONFLICT (id) DO UPDATE\<close>.
\<close>

definition upsert_refresh_token ::
  "bool \<Rightarrow> string list \<Rightarrow> RefreshTokenRecord \<Rightarrow> RefreshTokenRecord list
     \<Rightarrow> SupabaseError option \<times> RefreshTokenRecord list" where
  "upsert_refresh_token down user_ids r rows =
     (if down then (Some unavailable, rows)
      else if t_user_id r \<notin> set user_ids
        then (Some (foreign_key_violation ''refresh_tokens_user_id_fkey''), rows)
      else if t_id r \<in> set (map t_id rows) then
        (if t_token_hash r \<in> set (map t_token_hash (filter (\<lambda>x. t_id x \<noteq> t_id r) rows))
         then (Some (unique_violation ''refresh_tokens_token_hash_key''), rows)
         else (None, map (\<lambda>x. if t_id x = t_id r then r else x) rows))
      else if t_token_hash r \<in> set (map t_token_hash rows)
        then (Some (unique_violation ''refresh_tokens_token_hash_key''), rows)
      else (None, rows @ [r]))"

definition delete_refresh_tokens ::
  "bool \<Rightarrow> (RefreshTokenRecord \<Rightarrow> bool) \<Rightarrow> RefreshTokenRecord list
     \<Rightarrow> SupabaseError option \<times> RefreshTokenRecord list" where
  "delete_refresh_tokens down P rows =
     (if down then (Some unavailable, rows) else (None, filter (\<lambda>r. \<not> P r) rows))"

subsection \<open>The service's surroundings\<close>

datatype query =
    SelectUserByEmail | InsertUser | SelectUserById
  | SelectRefreshToken | UpsertRefreshToken | DeleteRefreshToken

record env =
  now :: nat               \<comment> \<open>\<^verbatim>\<open>Date.now()\<close>, milliseconds\<close>
  pw_salt :: string        \<comment> \<open>salt drawn by \<^verbatim>\<open>bcrypt.hash(password, ...)\<close>\<close>
  store_salt :: string     \<comment> \<open>salt drawn by the hash in storeRefreshToken\<close>
  revoke_salt :: string    \<comment> \<open>salt drawn by the hash in revokeRefreshToken\<close>
  user_uuid :: string      \<comment> \<open>\<^verbatim>\<open>gen_random_uuid()\<close> for a new users row\<close>
  token_uuid :: string     \<comment> \<open>\<^verbatim>\<open>gen_random_uuid()\<close> for a new refresh_tokens row\<close>
  outage :: "query list"   \<comment> \<open>requests of this call answered while the database is unreachable\<close>

record backend =
  jwt_secret :: string
  users :: "SupabaseUser list"
  refresh_tokens :: "RefreshTokenRecord list"

subsection \<open>DTOs\<close>

datatype SignUpDto = SignUpDto string jsstring string string  \<comment> \<open>email, password, firstName, lastName\<close>

datatype SignInDto = SignInDto string jsstring  \<comment> \<open>email, password\<close>

datatype RefreshTokenDto = RefreshTokenDto jsstring

record AuthUserDto =
  a_id :: string
  a_email :: string
  a_firstName :: string
  a_lastName :: string

record AuthResponseDto =
  res_accessToken :: jsstring
  res_refreshToken :: jsstring
  res_user :: AuthUserDto

record RefreshResponseDto =
  new_access :: jsstring
  new_refreshToken :: jsstring

subsection \<open>AuthService\<close>

definition saltRounds :: nat where
  "saltRounds = 12"

definition accessTokenExpiresIn :: nat where
  "accessTokenExpiresIn = 15 * 60"

definition refreshTokenExpiresIn :: nat where
  "refreshTokenExpiresIn = 7 * 24 * 60 * 60"

text \<open>The answer of the upsert is awaited and dropped.\<close>

definition storeRefreshToken :: "env \<Rightarrow> string \<Rightarrow> jsstring \<Rightarrow> backend \<Rightarrow> backend" where
  "storeRefreshToken e userId refreshToken s =
     (let hashedToken = bcrypt_hash refreshToken 8 (store_salt e);
          (error, rows) = upsert_refresh_token (UpsertRefreshToken \<in> set (outage e))
             (map u_id (users s))
             \<lparr>t_id = token_uuid e, t_user_id = userId, t_token_hash = hashedToken,
              t_expires_at = now e + 7 * 24 * 60 * 60 * 1000, t_created_at = now e\<rparr>
             (refresh_tokens s)
      in s\<lparr>refresh_tokens := rows\<rparr>)"

definition validateRefreshToken :: "env \<Rightarrow> string \<Rightarrow> jsstring \<Rightarrow> backend \<Rightarrow> bool" where
  "validateRefreshToken e userId refreshToken s =
     (case select_single (SelectRefreshToken \<in> set (outage e))
             (\<lambda>r. t_user_id r = userId \<and> now e \<le> t_expires_at r) (refresh_tokens s) of
        Inl error \<Rightarrow> False
      | Inr tokenRecord \<Rightarrow> bcrypt_compare refreshToken (t_token_hash tokenRecord))"

definition revokeRefreshToken :: "env \<Rightarrow> jsstring \<Rightarrow> backend \<Rightarrow> exception + backend" where
  "revokeRefreshToken e refreshToken s =
     (case jwt_verify (jwt_secret s) (now e) refreshToken of
        Inl thrown \<Rightarrow> Inl thrown
      | Inr decoded \<Rightarrow>
          let hashedToken = bcrypt_hash refreshToken 8 (revoke_salt e);
              (error, rows) = delete_refresh_tokens (DeleteRefreshToken \<in> set (outage e))
                 (\<lambda>r. t_user_id r = payload_sub decoded \<and> t_token_hash r = hashedToken)
                 (refresh_tokens s)
          in Inr (s\<lparr>refresh_tokens := rows\<rparr>))"

text \<open>
  Each public method is a \<^verbatim>\<open>try\<close> block and a \<^verbatim>\<open>catch\<close>. The \<open>_try\<close> function is the
  block: it returns what the block threw or returned, and the state it left behind.
\<close>

definition issue_tokens :: "env \<Rightarrow> SupabaseUser \<Rightarrow> backend \<Rightarrow> jsstring \<times> jsstring" where
  "issue_tokens e u s =
     (jwt_sign (jwt_secret s) (now e)
        (JWTPayload (u_id u) (u_email u) (u_first_name u) (u_last_name u)) accessTokenExpiresIn,
      jwt_sign (jwt_secret s) (now e)
        (RefreshJWTPayload (u_id u) ''refresh'') refreshTokenExpiresIn)"

fun signUp_try :: "env \<Rightarrow> SignUpDto \<Rightarrow> backend \<Rightarrow> (exception + AuthResponseDto) \<times> backend" where
  "signUp_try e (SignUpDto email password firstName lastName) s =
     (let hashedPassword = bcrypt_hash password saltRounds (pw_salt e) in
      case select_single (SelectUserByEmail \<in> set (outage e)) (\<lambda>u. u_email u = email) (users s) of
        Inr existingUser \<Rightarrow> (Inl (ConflictException ''User with this email already exists''), s)
      | Inl existingError \<Rightarrow>
         (case insert_user (InsertUser \<in> set (outage e))
                 \<lparr>u_id = user_uuid e, u_email = email, u_password = hashedPassword,
                  u_first_name = firstName, u_last_name = lastName, u_email_verified = False,
                  u_created_at = now e, u_updated_at = now e\<rparr> (users s) of
            (Inl insertError, rows) \<Rightarrow>
              (Inl (BadRequestException (''Failed to create user: '' @ message insertError)), s)
          | (Inr newUser, rows) \<Rightarrow>
              let s1 = s\<lparr>users := rows\<rparr>;
                  (accessToken, refreshToken) = issue_tokens e newUser s1;
                  s2 = storeRefreshToken e (u_id newUser) refreshToken s1
              in (Inr \<lparr>res_accessToken = accessToken, res_refreshToken = refreshToken,
                       res_user = \<lparr>a_id = u_id newUser, a_email = u_email newUser,
                               a_firstName = u_first_name newUser,
                               a_lastName = u_last_name newUser\<rparr>\<rparr>, s2)))"

definition signUp :: "env \<Rightarrow> SignUpDto \<Rightarrow> backend \<Rightarrow> (exception + AuthResponseDto) \<times> backend" where
  "signUp e dto s =
     (case signUp_try e dto s of
        (Inl (ConflictException m), s') \<Rightarrow> (Inl (ConflictException m), s')
      | (Inl (BadRequestException m), s') \<Rightarrow> (Inl (BadRequestException m), s')
      | (Inl _, s') \<Rightarrow> (Inl (BadRequestException ''Sign up failed''), s')
      | (Inr response, s') \<Rightarrow> (Inr response, s'))"

fun signIn_try :: "env \<Rightarrow> SignInDto \<Rightarrow> backend \<Rightarrow> (exception + AuthResponseDto) \<times> backend" where
  "signIn_try e (SignInDto email password) s =
     (case select_single (SelectUserByEmail \<in> set (outage e)) (\<lambda>u. u_email u = email) (users s) of
        Inl error \<Rightarrow> (Inl (UnauthorizedException ''Invalid credentials''), s)
      | Inr user \<Rightarrow>
          if \<not> bcrypt_compare password (u_password user)
          then (Inl (UnauthorizedException ''Invalid credentials''), s)
          else
            let (accessToken, refreshToken) = issue_tokens e user s;
                s1 = storeRefreshToken e (u_id user) refreshToken s
            in (Inr \<lparr>res_accessToken = accessToken, res_refreshToken = refreshToken,
                     res_user = \<lparr>a_id = u_id user, a_email = u_email user,
                             a_firstName = u_first_name user,
                             a_lastName = u_last_name user\<rparr>\<rparr>, s1))"

definition signIn :: "env \<Rightarrow> SignInDto \<Rightarrow> backend \<Rightarrow> (exception + AuthResponseDto) \<times> backend" where
  "signIn e dto s =
     (case signIn_try e dto s of
        (Inl (UnauthorizedException m), s') \<Rightarrow> (Inl (UnauthorizedException m), s')
      | (Inl _, s') \<Rightarrow> (Inl (UnauthorizedException ''Sign in failed''), s')
      | (Inr response, s') \<Rightarrow> (Inr response, s'))"

fun refreshTokens_try ::
  "env \<Rightarrow> RefreshTokenDto \<Rightarrow> backend \<Rightarrow> (exception + RefreshResponseDto) \<times> backend" where
  "refreshTokens_try e (RefreshTokenDto refreshToken) s =
     (case jwt_verify (jwt_secret s) (now e) refreshToken of
        Inl thrown \<Rightarrow> (Inl thrown, s)
      | Inr decoded \<Rightarrow>
          (if payload_type decoded \<noteq> Some ''refresh''
           then (Inl (UnauthorizedException ''Invalid refresh token''), s)
           else if \<not> validateRefreshToken e (payload_sub decoded) refreshToken s
           then (Inl (UnauthorizedException ''Invalid refresh token''), s)
           else
             (case select_single (SelectUserById \<in> set (outage e))
                    (\<lambda>u. u_id u = payload_sub decoded) (users s) of
                Inl error \<Rightarrow> (Inl (UnauthorizedException ''User not found''), s)
              | Inr user \<Rightarrow>
                  (let (accessToken, newRefreshToken) = issue_tokens e user s;
                       s1 = storeRefreshToken e (u_id user) newRefreshToken s
                   in (case revokeRefreshToken e refreshToken s1 of
                         Inl thrown \<Rightarrow> (Inl thrown, s1)
                       | Inr s2 \<Rightarrow>
                           (Inr \<lparr>new_access = accessToken,
                                 new_refreshToken = newRefreshToken\<rparr>, s2))))))"

definition refreshTokens ::
  "env \<Rightarrow> RefreshTokenDto \<Rightarrow> backend \<Rightarrow> (exception + RefreshResponseDto) \<times> backend" where
  "refreshTokens e dto s =
     (case refreshTokens_try e dto s of
        (Inl _, s') \<Rightarrow> (Inl (UnauthorizedException ''Token refresh failed''), s')
      | (Inr response, s') \<Rightarrow> (Inr response, s'))"

definition logout :: "env \<Rightarrow> jsstring \<Rightarrow> backend \<Rightarrow> (exception + unit) \<times> backend" where
  "logout e refreshToken s =
     (case revokeRefreshToken e refreshToken s of
        Inl _ \<Rightarrow> (Inl (UnauthorizedException ''Logout failed''), s)
      | Inr s' \<Rightarrow> (Inr (), s'))"

subsection \<open>A run of the service\<close>

text \<open>
  A backend with no rows, three calls at different times with their own salts and
  generated ids, and the tokens and rows that the calls produce.
\<close>

definition boot :: backend where
  "boot = \<lparr>jwt_secret = ''secret'', users = [], refresh_tokens = []\<rparr>"

definition env1 :: env where
  "env1 = \<lparr>now = 1000000, pw_salt = ''saltP1'', store_salt = ''saltS1'', revoke_salt = ''saltR1'',
            user_uuid = ''uuid-U1'', token_uuid = ''uuid-T1'', outage = []\<rparr>"

definition env2 :: env where
  "env2 = \<lparr>now = 2000000, pw_salt = ''saltP2'', store_salt = ''saltS2'', revoke_salt = ''saltR2'',
            user_uuid = ''uuid-U2'', token_uuid = ''uuid-T2'', outage = []\<rparr>"

definition env3 :: env where
  "env3 = \<lparr>now = 3000000, pw_salt = ''saltP3'', store_salt = ''saltS3'', revoke_salt = ''saltR3'',
            user_uuid = ''uuid-U3'', token_uuid = ''uuid-T3'', outage = []\<rparr>"

definition access1 :: jsstring where
  "access1 = Jwt ''secret'' (JWTPayload ''uuid-U1'' ''a@b.com'' ''Ayse'' ''Demir'') 1000 1900"

definition token1 :: jsstring where
  "token1 = Jwt ''secret'' (RefreshJWTPayload ''uuid-U1'' ''refresh'') 1000 605800"

definition access2 :: jsstring where
  "access2 = Jwt ''secret'' (JWTPayload ''uuid-U1'' ''a@b.com'' ''Ayse'' ''Demir'') 2000 2900"

definition token2 :: jsstring where
  "token2 = Jwt ''secret'' (RefreshJWTPayload ''uuid-U1'' ''refresh'') 2000 606800"

definition alice_row :: SupabaseUser where
  "alice_row = \<lparr>u_id = ''uuid-U1'', u_email = ''a@b.com'',
                 u_password = Bcrypt 12 ''saltP1'' (Str ''Str0ng!Passw0rd''),
                 u_first_name = ''Ayse'', u_last_name = ''Demir'', u_email_verified = False,
                 u_created_at = 1000000, u_updated_at = 1000000\<rparr>"

definition record1 :: RefreshTokenRecord where
  "record1 = \<lparr>t_id = ''uuid-T1'', t_user_id = ''uuid-U1'', t_token_hash = Bcrypt 8 ''saltS1'' token1,
               t_expires_at = 605800000, t_created_at = 1000000\<rparr>"

definition record2 :: RefreshTokenRecord where
  "record2 = \<lparr>t_id = ''uuid-T2'', t_user_id = ''uuid-U1'', t_token_hash = Bcrypt 8 ''saltS2'' token2,
               t_expires_at = 606800000, t_created_at = 2000000\<rparr>"

definition backend1 :: backend where
  "backend1 = \<lparr>jwt_secret = ''secret'', users = [alice_row], refresh_tokens = [record1]\<rparr>"

definition backend2 :: backend where
  "backend2 = \<lparr>jwt_secret = ''secret'', users = [alice_row], refresh_tokens = [record1, record2]\<rparr>"


definition env_down :: env where
  "env_down = env2\<lparr>outage := [UpsertRefreshToken]\<rparr>"

definition env_same_salt :: env where
  "env_same_salt = env2\<lparr>revoke_salt := ''saltS1''\<rparr>"

definition env_lookup_down :: env where
  "env_lookup_down = env2\<lparr>outage := [SelectUserByEmail]\<rparr>"

section \<open>Properties\<close>

lemmas service_defs =
  signUp_def signIn_def refreshTokens_def logout_def
  storeRefreshToken_def validateRefreshToken_def revokeRefreshToken_def issue_tokens_def
  select_single_def insert_user_def upsert_refresh_token_def delete_refresh_tokens_def
  jwt_sign_def jwt_verify_def bcrypt_hash_def bcrypt_compare_def
  saltRounds_def accessTokenExpiresIn_def refreshTokenExpiresIn_def

lemmas scenario_defs =
  boot_def env1_def env2_def env3_def env_down_def env_same_salt_def env_lookup_down_def
  access1_def token1_def access2_def token2_def
  alice_row_def record1_def record2_def backend1_def backend2_def

lemma users_storeRefreshToken: "users (storeRefreshToken e userId tok s) = users s"
  by (simp add: storeRefreshToken_def Let_def split: prod.splits)

lemma jwt_secret_storeRefreshToken: "jwt_secret (storeRefreshToken e userId tok s) = jwt_secret s"
  by (simp add: storeRefreshToken_def Let_def split: prod.splits)

lemma bcrypt_hash_neq: "bcrypt_hash s rounds salt \<noteq> s"
proof
  assume "bcrypt_hash s rounds salt = s"
  then have "size (Bcrypt rounds salt s) = size s" by (simp add: bcrypt_hash_def)
  then show False by simp
qed

lemma filter_no_match: "\<forall>r\<in>set rows. \<not> P r \<Longrightarrow> filter (\<lambda>r. \<not> P r) rows = rows"
  by (induction rows) auto

text \<open>
  With the database reachable, a generated id that no row has and a salt that no stored
  hash carries, storeRefreshToken adds a row and keeps every row that was there.
\<close>

lemma storeRefreshToken_appends:
  assumes "UpsertRefreshToken \<notin> set (outage e)"
    and "userId \<in> set (map u_id (users s))"
    and "token_uuid e \<notin> set (map t_id (refresh_tokens s))"
    and "\<forall>r\<in>set (refresh_tokens s). bcrypt_salt (t_token_hash r) \<noteq> Some (store_salt e)"
  shows "refresh_tokens (storeRefreshToken e userId refreshToken s) =
           refresh_tokens s @
             [\<lparr>t_id = token_uuid e, t_user_id = userId,
               t_token_hash = bcrypt_hash refreshToken 8 (store_salt e),
               t_expires_at = now e + 7 * 24 * 60 * 60 * 1000, t_created_at = now e\<rparr>]"
proof -
  have "bcrypt_hash refreshToken 8 (store_salt e) \<notin> set (map t_token_hash (refresh_tokens s))"
  proof
    assume "bcrypt_hash refreshToken 8 (store_salt e) \<in> set (map t_token_hash (refresh_tokens s))"
    then obtain r where r: "r \<in> set (refresh_tokens s)"
      and h: "t_token_hash r = Bcrypt 8 (store_salt e) refreshToken"
      by (auto simp: bcrypt_hash_def)
    from h have "bcrypt_salt (t_token_hash r) = Some (store_salt e)" by simp
    with assms(4) r show False by blast
  qed
  then show ?thesis
    using assms(1-3) by (simp add: storeRefreshToken_def upsert_refresh_token_def)
qed

lemma signUp_success:
  assumes "signUp e (SignUpDto email password firstName lastName) s = (Inr response, s')"
  shows "email \<notin> set (map u_email (users s))"
    and "users s' = users s @ [\<lparr>u_id = user_uuid e, u_email = email,
             u_password = bcrypt_hash password saltRounds (pw_salt e),
             u_first_name = firstName, u_last_name = lastName, u_email_verified = False,
             u_created_at = now e, u_updated_at = now e\<rparr>]"
    and "jwt_secret s' = jwt_secret s"
    and "response = \<lparr>res_accessToken = jwt_sign (jwt_secret s) (now e)
                         (JWTPayload (user_uuid e) email firstName lastName) accessTokenExpiresIn,
                      res_refreshToken = jwt_sign (jwt_secret s) (now e)
                         (RefreshJWTPayload (user_uuid e) ''refresh'') refreshTokenExpiresIn,
                      res_user = \<lparr>a_id = user_uuid e, a_email = email,
                                  a_firstName = firstName, a_lastName = lastName\<rparr>\<rparr>"
  using assms
  by (auto simp: signUp_def insert_user_def issue_tokens_def Let_def
        users_storeRefreshToken jwt_secret_storeRefreshToken
      split: sum.splits prod.splits if_splits exception.splits)

lemma one_row_after_signUp:
  assumes "signUp e (SignUpDto email password firstName lastName) s = (Inr response, s')"
  shows "filter (\<lambda>u. u_email u = email) (users s') =
           [\<lparr>u_id = user_uuid e, u_email = email,
             u_password = bcrypt_hash password saltRounds (pw_salt e),
             u_first_name = firstName, u_last_name = lastName, u_email_verified = False,
             u_created_at = now e, u_updated_at = now e\<rparr>]"
proof -
  have "filter (\<lambda>u. u_email u = email) (users s) = []"
    using signUp_success(1)[OF assms] by (auto simp: filter_empty_conv)
  then show ?thesis
    by (simp add: signUp_success(2)[OF assms])
qed

lemma signUp_alice:
  "signUp env1 (SignUpDto ''a@b.com'' (Str ''Str0ng!Passw0rd'') ''Ayse'' ''Demir'') boot =
     (Inr \<lparr>res_accessToken = access1, res_refreshToken = token1,
           res_user = \<lparr>a_id = ''uuid-U1'', a_email = ''a@b.com'',
                       a_firstName = ''Ayse'', a_lastName = ''Demir''\<rparr>\<rparr>, backend1)"
  by (simp add: service_defs scenario_defs)

lemma refresh_alice:
  "refreshTokens env2 (RefreshTokenDto token1) backend1 =
     (Inr \<lparr>new_access = access2, new_refreshToken = token2\<rparr>, backend2)"
  by (simp add: service_defs scenario_defs)

lemma signIn_alice:
  "signIn env2 (SignInDto ''a@b.com'' (Str ''Str0ng!Passw0rd'')) backend1 =
     (Inr \<lparr>res_accessToken = access2, res_refreshToken = token2,
           res_user = \<lparr>a_id = ''uuid-U1'', a_email = ''a@b.com'',
                       a_firstName = ''Ayse'', a_lastName = ''Demir''\<rparr>\<rparr>, backend2)"
  by (simp add: service_defs scenario_defs)

text \<open>
  Every way in which refreshTokens fails gives the one exception, and the four checks
  of the flow leave the tables as they were.
\<close>

lemma refreshTokens_failure_generic:
  "refreshTokens e dto s = (Inl thrown, s') \<Longrightarrow> thrown = UnauthorizedException ''Token refresh failed''"
  by (auto simp: refreshTokens_def split: sum.splits prod.splits)

lemma refreshTokens_rejects:
  assumes "(\<exists>thrown. jwt_verify (jwt_secret s) (now e) refreshToken = Inl thrown)
         \<or> (\<exists>decoded. jwt_verify (jwt_secret s) (now e) refreshToken = Inr decoded
              \<and> (payload_type decoded \<noteq> Some ''refresh''
                 \<or> \<not> validateRefreshToken e (payload_sub decoded) refreshToken s
                 \<or> isl (select_single (SelectUserById \<in> set (outage e))
                          (\<lambda>u. u_id u = payload_sub decoded) (users s))))"
  shows "refreshTokens e (RefreshTokenDto refreshToken) s =
           (Inl (UnauthorizedException ''Token refresh failed''), s)"
  using assms
  by (auto simp: refreshTokens_def isl_def split: sum.splits prod.splits)

text \<open>
  C1. Rotation: after a successful refresh of the old token that returned a new token,
  refreshing the old token again fails and refreshing the new token succeeds.
  The run below is a sign-up, a refresh of the token it returned, and then a refresh of
  either token. The store now holds two unexpired records for the user, so the single-row
  fetch of validateRefreshToken errors: the old token is refused, and so is the new one.
\<close>

theorem refreshTokens_new_token_refused:
  "signUp env1 (SignUpDto ''a@b.com'' (Str ''Str0ng!Passw0rd'') ''Ayse'' ''Demir'') boot =
     (Inr \<lparr>res_accessToken = access1, res_refreshToken = token1,
           res_user = \<lparr>a_id = ''uuid-U1'', a_email = ''a@b.com'',
                       a_firstName = ''Ayse'', a_lastName = ''Demir''\<rparr>\<rparr>, backend1)
   \<and> refreshTokens env2 (RefreshTokenDto token1) backend1 =
     (Inr \<lparr>new_access = access2, new_refreshToken = token2\<rparr>, backend2)
   \<and> refreshTokens env3 (RefreshTokenDto token1) backend2 =
     (Inl (UnauthorizedException ''Token refresh failed''), backend2)
   \<and> refreshTokens env3 (RefreshTokenDto token2) backend2 =
     (Inl (UnauthorizedException ''Token refresh failed''), backend2)"
proof -
  have old: "refreshTokens env3 (RefreshTokenDto token1) backend2 =
     (Inl (UnauthorizedException ''Token refresh failed''), backend2)"
    by (simp add: service_defs scenario_defs)
  have new: "refreshTokens env3 (RefreshTokenDto token2) backend2 =
     (Inl (UnauthorizedException ''Token refresh failed''), backend2)"
    by (simp add: service_defs scenario_defs)
  show ?thesis using signUp_alice refresh_alice old new by simp
qed

text \<open>
  C2. Logout invalidates the token: after logout of a token returned without error,
  refreshing that token fails.
  In the run below the logout returns without error and leaves the store as it was (the
  hash it deletes by carries a salt of its own), and the token still refreshes.
\<close>

theorem logout_token_still_refreshes:
  "logout env2 token1 backend1 = (Inr (), backend1)
   \<and> fst (refreshTokens env3 (RefreshTokenDto token1) backend1) =
       Inr \<lparr>new_access = Jwt ''secret'' (JWTPayload ''uuid-U1'' ''a@b.com'' ''Ayse'' ''Demir'') 3000 3900,
            new_refreshToken = Jwt ''secret'' (RefreshJWTPayload ''uuid-U1'' ''refresh'') 3000 607800\<rparr>"
proof -
  have out: "logout env2 token1 backend1 = (Inr (), backend1)"
    by (simp add: service_defs scenario_defs)
  have again: "fst (refreshTokens env3 (RefreshTokenDto token1) backend1) =
       Inr \<lparr>new_access = Jwt ''secret'' (JWTPayload ''uuid-U1'' ''a@b.com'' ''Ayse'' ''Demir'') 3000 3900,
            new_refreshToken = Jwt ''secret'' (RefreshJWTPayload ''uuid-U1'' ''refresh'') 3000 607800\<rparr>"
    by (simp add: service_defs scenario_defs)
  show ?thesis using out again by simp
qed

text \<open>
  C3. One record per user: after every sign-up, sign-in or refresh the store holds at most
  one refresh record for each user id, storing a token overwriting the user's record.
  In the run below a sign-up followed by a sign-in of the same user leaves two records
  for that user: the upsert carries no id and the table has no uniqueness constraint on
  user_id, so the second store is an insert.
\<close>

theorem signIn_adds_second_record:
  "snd (signUp env1 (SignUpDto ''a@b.com'' (Str ''Str0ng!Passw0rd'') ''Ayse'' ''Demir'') boot) = backend1
   \<and> snd (signIn env2 (SignInDto ''a@b.com'' (Str ''Str0ng!Passw0rd'')) backend1) = backend2
   \<and> filter (\<lambda>r. t_user_id r = ''uuid-U1'') (refresh_tokens backend1) = [record1]
   \<and> filter (\<lambda>r. t_user_id r = ''uuid-U1'') (refresh_tokens backend2) = [record1, record2]"
proof -
  have one: "filter (\<lambda>r. t_user_id r = ''uuid-U1'') (refresh_tokens backend1) = [record1]"
    by (simp add: scenario_defs)
  have two: "filter (\<lambda>r. t_user_id r = ''uuid-U1'') (refresh_tokens backend2) = [record1, record2]"
    by (simp add: scenario_defs)
  show ?thesis using signUp_alice signIn_alice one two by simp
qed

text \<open>
  C4. Revoke leaves the store alone: revokeRefreshToken hashes the token again with a
  salt of its own; when no stored hash carries that salt, the delete by
  (user_id, token_hash) matches no row and the backend is unchanged. The call throws
  exactly when the token does not verify.
\<close>

theorem revokeRefreshToken_no_effect:
  assumes "\<forall>r\<in>set (refresh_tokens s). bcrypt_salt (t_token_hash r) \<noteq> Some (revoke_salt e)"
  shows "revokeRefreshToken e refreshToken s =
           (case jwt_verify (jwt_secret s) (now e) refreshToken of
              Inl thrown \<Rightarrow> Inl thrown | Inr decoded \<Rightarrow> Inr s)"
proof (cases "jwt_verify (jwt_secret s) (now e) refreshToken")
  case (Inl thrown)
  then show ?thesis by (simp add: revokeRefreshToken_def)
next
  case (Inr decoded)
  have "\<forall>r\<in>set (refresh_tokens s).
          \<not> (t_user_id r = payload_sub decoded
              \<and> t_token_hash r = bcrypt_hash refreshToken 8 (revoke_salt e))"
    using assms by (auto simp: bcrypt_hash_def)
  then have "filter (\<lambda>r. \<not> (t_user_id r = payload_sub decoded
              \<and> t_token_hash r = bcrypt_hash refreshToken 8 (revoke_salt e))) (refresh_tokens s)
             = refresh_tokens s"
    by (rule filter_no_match)
  then show ?thesis
    using Inr by (simp add: revokeRefreshToken_def delete_refresh_tokens_def Let_def)
qed

theorem revokeRefreshToken_no_effect_witness:
  "map (\<lambda>r. bcrypt_salt (t_token_hash r)) (refresh_tokens backend1) = [Some ''saltS1'']
   \<and> revoke_salt env2 = ''saltR2''
   \<and> refresh_tokens backend1 = [record1]
   \<and> t_token_hash record1 = bcrypt_hash token1 8 (store_salt env1)
   \<and> revokeRefreshToken env2 token1 backend1 = Inr backend1"
proof -
  have fresh: "\<forall>r\<in>set (refresh_tokens backend1). bcrypt_salt (t_token_hash r) \<noteq> Some (revoke_salt env2)"
    by (simp add: scenario_defs)
  have verified: "jwt_verify (jwt_secret backend1) (now env2) token1 = Inr (RefreshJWTPayload ''uuid-U1'' ''refresh'')"
    by (simp add: jwt_verify_def scenario_defs)
  show ?thesis
    using verified revokeRefreshToken_no_effect [OF fresh, of token1]
    by (simp add: scenario_defs bcrypt_hash_def)
qed

text \<open>
  C5. Sign-in errors are indistinguishable: a sign-in with an email that no user has and
  a sign-in with the email of a user but a password that does not match both fail with
  UnauthorizedException 'Invalid credentials', change nothing, and return equal results.
\<close>

theorem signIn_errors_indistinguishable:
  assumes "email1 \<notin> set (map u_email (users s1))"
    and "filter (\<lambda>u. u_email u = email2) (users s2) = [u]"
    and "\<not> bcrypt_compare password2 (u_password u)"
  shows "signIn e1 (SignInDto email1 password1) s1 =
           (Inl (UnauthorizedException ''Invalid credentials''), s1)
       \<and> signIn e2 (SignInDto email2 password2) s2 =
           (Inl (UnauthorizedException ''Invalid credentials''), s2)
       \<and> fst (signIn e1 (SignInDto email1 password1) s1) =
         fst (signIn e2 (SignInDto email2 password2) s2)"
proof -
  have "filter (\<lambda>u. u_email u = email1) (users s1) = []"
    using assms(1) by (auto simp: filter_empty_conv)
  then have unknown: "signIn e1 (SignInDto email1 password1) s1 =
      (Inl (UnauthorizedException ''Invalid credentials''), s1)"
    by (simp add: signIn_def select_single_def)
  have wrong: "signIn e2 (SignInDto email2 password2) s2 =
      (Inl (UnauthorizedException ''Invalid credentials''), s2)"
    using assms(2,3) by (simp add: signIn_def select_single_def)
  show ?thesis using unknown wrong by simp
qed

theorem signIn_errors_indistinguishable_witness:
  "''x@y.org'' \<notin> set (map u_email (users backend1))
   \<and> filter (\<lambda>u. u_email u = ''a@b.com'') (users backend1) = [alice_row]
   \<and> \<not> bcrypt_compare (Str ''Wr0ng!Passw0rd'') (u_password alice_row)
   \<and> signIn env2 (SignInDto ''x@y.org'' (Str ''Str0ng!Passw0rd'')) backend1 =
       (Inl (UnauthorizedException ''Invalid credentials''), backend1)
   \<and> signIn env3 (SignInDto ''a@b.com'' (Str ''Wr0ng!Passw0rd'')) backend1 =
       (Inl (UnauthorizedException ''Invalid credentials''), backend1)"
proof -
  have unknown: "''x@y.org'' \<notin> set (map u_email (users backend1))"
    by (simp add: scenario_defs)
  have known: "filter (\<lambda>u. u_email u = ''a@b.com'') (users backend1) = [alice_row]"
    by (simp add: scenario_defs)
  have wrong: "\<not> bcrypt_compare (Str ''Wr0ng!Passw0rd'') (u_password alice_row)"
    by (simp add: scenario_defs bcrypt_compare_def bcrypt_hash_def)
  show ?thesis
    using unknown known wrong
      signIn_errors_indistinguishable [OF unknown known wrong, of env2 "Str ''Str0ng!Passw0rd''" env3]
    by simp
qed

text \<open>
  C6. Sign-up success: when signUp returns a response, the access token verifies to the
  submitted email, first name and last name (with the new user's id as subject); the
  users table holds exactly one row with that email; the password stored in it is the
  bcrypt hash and differs from the submitted password; and the returned profile is the
  id, email, first name and last name of that row, with no further field.
\<close>

theorem signUp_success_postcondition:
  assumes "signUp e (SignUpDto email password firstName lastName) s = (Inr response, s')"
  shows "jwt_verify (jwt_secret s') (now e) (res_accessToken response) =
           Inr (JWTPayload (a_id (res_user response)) email firstName lastName)
       \<and> length (filter (\<lambda>u. u_email u = email) (users s')) = 1
       \<and> (\<forall>u\<in>set (users s'). u_email u = email \<longrightarrow>
             u_password u \<noteq> password \<and> u_id u = a_id (res_user response))
       \<and> res_user response =
           \<lparr>a_id = user_uuid e, a_email = email, a_firstName = firstName, a_lastName = lastName\<rparr>"
proof -
  note row = one_row_after_signUp [OF assms]
  note response = signUp_success(4) [OF assms]
  have token: "jwt_verify (jwt_secret s') (now e) (res_accessToken response) =
           Inr (JWTPayload (a_id (res_user response)) email firstName lastName)"
    by (simp add: response signUp_success(3) [OF assms] jwt_verify_def jwt_sign_def
          accessTokenExpiresIn_def Let_def)
  have count: "length (filter (\<lambda>u. u_email u = email) (users s')) = 1"
    by (simp add: row)
  have stored: "\<forall>u\<in>set (users s'). u_email u = email \<longrightarrow>
             u_password u \<noteq> password \<and> u_id u = a_id (res_user response)"
  proof (intro ballI impI)
    fix u assume "u \<in> set (users s')" and "u_email u = email"
    then have "u \<in> set (filter (\<lambda>u. u_email u = email) (users s'))" by simp
    then have "u = \<lparr>u_id = user_uuid e, u_email = email,
             u_password = bcrypt_hash password saltRounds (pw_salt e),
             u_first_name = firstName, u_last_name = lastName, u_email_verified = False,
             u_created_at = now e, u_updated_at = now e\<rparr>"
      by (simp add: row)
    then show "u_password u \<noteq> password \<and> u_id u = a_id (res_user response)"
      by (simp add: bcrypt_hash_neq response)
  qed
  show ?thesis using token count stored by (simp add: response)
qed

theorem signUp_success_postcondition_witness:
  "signUp env1 (SignUpDto ''a@b.com'' (Str ''Str0ng!Passw0rd'') ''Ayse'' ''Demir'') boot =
     (Inr \<lparr>res_accessToken = access1, res_refreshToken = token1,
           res_user = \<lparr>a_id = ''uuid-U1'', a_email = ''a@b.com'',
                       a_firstName = ''Ayse'', a_lastName = ''Demir''\<rparr>\<rparr>, backend1)
   \<and> jwt_verify (jwt_secret backend1) (now env1) access1 =
       Inr (JWTPayload ''uuid-U1'' ''a@b.com'' ''Ayse'' ''Demir'')
   \<and> length (filter (\<lambda>u. u_email u = ''a@b.com'') (users backend1)) = 1
   \<and> alice_row \<in> set (users backend1) \<and> u_email alice_row = ''a@b.com''
   \<and> u_password alice_row \<noteq> Str ''Str0ng!Passw0rd''"
  using signUp_alice signUp_success_postcondition [OF signUp_alice]
  by (simp add: scenario_defs)

text \<open>
  C7. Duplicate sign-up: in the backend left by a successful sign-up for an email, a
  second signUp with that email fails and changes nothing, so the users table still
  holds exactly one row for the email. The failure is ConflictException 'User with this
  email already exists' when the lookup by email is answered by the database. When the
  lookup is answered with an error, the guard \<^verbatim>\<open>existingUser && !existingError\<close> lets the
  call go on to the insert, and the failure is BadRequestException 'Failed to create
  user: ...' instead.
\<close>

theorem signUp_duplicate_email:
  assumes "signUp e1 (SignUpDto email password1 firstName1 lastName1) s0 = (Inr response, s1)"
  shows "(SelectUserByEmail \<notin> set (outage e2) \<longrightarrow>
            signUp e2 (SignUpDto email password2 firstName2 lastName2) s1 =
              (Inl (ConflictException ''User with this email already exists''), s1))
       \<and> (SelectUserByEmail \<in> set (outage e2) \<longrightarrow>
            (\<exists>m. signUp e2 (SignUpDto email password2 firstName2 lastName2) s1 =
              (Inl (BadRequestException (''Failed to create user: '' @ m)), s1)))
       \<and> (\<exists>thrown. signUp e2 (SignUpDto email password2 firstName2 lastName2) s1 = (Inl thrown, s1))
       \<and> length (filter (\<lambda>u. u_email u = email) (users s1)) = 1"
proof -
  note row = one_row_after_signUp [OF assms]
  have known: "email \<in> set (map u_email (users s1))"
    by (simp add: signUp_success(2) [OF assms])
  have found: "SelectUserByEmail \<notin> set (outage e2) \<Longrightarrow>
      signUp e2 (SignUpDto email password2 firstName2 lastName2) s1 =
        (Inl (ConflictException ''User with this email already exists''), s1)"
    by (simp add: signUp_def select_single_def row)
  have lost: "SelectUserByEmail \<in> set (outage e2) \<Longrightarrow>
      \<exists>m. signUp e2 (SignUpDto email password2 firstName2 lastName2) s1 =
        (Inl (BadRequestException (''Failed to create user: '' @ m)), s1)"
    using known by (auto simp: signUp_def select_single_def insert_user_def Let_def)
  have fails: "\<exists>thrown. signUp e2 (SignUpDto email password2 firstName2 lastName2) s1 = (Inl thrown, s1)"
  proof (cases "SelectUserByEmail \<in> set (outage e2)")
    case True
    from lost [OF True] show ?thesis by blast
  next
    case False
    from found [OF False] show ?thesis by blast
  qed
  have count: "length (filter (\<lambda>u. u_email u = email) (users s1)) = 1"
    by (simp add: row)
  show ?thesis using found lost fails count by blast
qed

theorem signUp_duplicate_email_witness:
  "signUp env1 (SignUpDto ''a@b.com'' (Str ''Str0ng!Passw0rd'') ''Ayse'' ''Demir'') boot =
     (Inr \<lparr>res_accessToken = access1, res_refreshToken = token1,
           res_user = \<lparr>a_id = ''uuid-U1'', a_email = ''a@b.com'',
                       a_firstName = ''Ayse'', a_lastName = ''Demir''\<rparr>\<rparr>, backend1)
   \<and> SelectUserByEmail \<notin> set (outage env2)
   \<and> signUp env2 (SignUpDto ''a@b.com'' (Str ''An0ther!Passw0rd'') ''Ali'' ''Kaya'') backend1 =
       (Inl (ConflictException ''User with this email already exists''), backend1)
   \<and> SelectUserByEmail \<in> set (outage env_lookup_down)
   \<and> (\<exists>m. signUp env_lookup_down
             (SignUpDto ''a@b.com'' (Str ''An0ther!Passw0rd'') ''Ali'' ''Kaya'') backend1 =
           (Inl (BadRequestException (''Failed to create user: '' @ m)), backend1))
   \<and> length (filter (\<lambda>u. u_email u = ''a@b.com'') (users backend1)) = 1"
proof -
  have up: "SelectUserByEmail \<notin> set (outage env2)"
    by (simp add: scenario_defs)
  have down: "SelectUserByEmail \<in> set (outage env_lookup_down)"
    by (simp add: scenario_defs)
  note answered = signUp_duplicate_email
    [OF signUp_alice, of env2 "Str ''An0ther!Passw0rd''" "''Ali''" "''Kaya''"]
  note unanswered = signUp_duplicate_email
    [OF signUp_alice, of env_lookup_down "Str ''An0ther!Passw0rd''" "''Ali''" "''Kaya''"]
  show ?thesis
    using signUp_alice up down answered unanswered by blast
qed

text \<open>
  The claim as it was stated has the second signUp fail with the ConflictException in
  every case. In the run below the database is unreachable for the lookup by email and
  back for the insert: the unique constraint on email refuses the row, and the call
  fails with the BadRequestException, leaving the one row for the email.
\<close>

theorem signUp_duplicate_email_lookup_down:
  "signUp env1 (SignUpDto ''a@b.com'' (Str ''Str0ng!Passw0rd'') ''Ayse'' ''Demir'') boot =
     (Inr \<lparr>res_accessToken = access1, res_refreshToken = token1,
           res_user = \<lparr>a_id = ''uuid-U1'', a_email = ''a@b.com'',
                       a_firstName = ''Ayse'', a_lastName = ''Demir''\<rparr>\<rparr>, backend1)
   \<and> signUp env_lookup_down
        (SignUpDto ''a@b.com'' (Str ''An0ther!Passw0rd'') ''Ali'' ''Kaya'') backend1 =
       (Inl (BadRequestException
          ''Failed to create user: duplicate key value violates unique constraint users_email_key''),
        backend1)
   \<and> fst (signUp env_lookup_down
        (SignUpDto ''a@b.com'' (Str ''An0ther!Passw0rd'') ''Ali'' ''Kaya'') backend1) \<noteq>
       Inl (ConflictException ''User with this email already exists'')"
proof -
  have refused: "signUp env_lookup_down
        (SignUpDto ''a@b.com'' (Str ''An0ther!Passw0rd'') ''Ali'' ''Kaya'') backend1 =
       (Inl (BadRequestException
          ''Failed to create user: duplicate key value violates unique constraint users_email_key''),
        backend1)"
    by (simp add: service_defs scenario_defs unique_violation_def)
  show ?thesis using signUp_alice refused by simp
qed

text \<open>
  C8. Refresh failures collapse: a token with a bad signature, an expired or malformed
  token, or one whose type is not 'refresh' fails with the one generic error, and so does
  every other internal failure of the refresh flow (store mismatch, user gone, storage
  error); no partial success is exposed.
  In the run below the database is unreachable when the new token is upserted. The client
  answers with an error value, which storeRefreshToken drops: refreshTokens returns
  the new pair, and the store still holds only the record of the old token.
\<close>

theorem refreshTokens_upsert_error_unreported:
  "fst (upsert_refresh_token (UpsertRefreshToken \<in> set (outage env_down))
          (map u_id (users backend1)) record2 (refresh_tokens backend1)) = Some unavailable
   \<and> refreshTokens env_down (RefreshTokenDto token1) backend1 =
       (Inr \<lparr>new_access = access2, new_refreshToken = token2\<rparr>, backend1)
   \<and> refresh_tokens backend1 = [record1]"
proof -
  have failed: "fst (upsert_refresh_token (UpsertRefreshToken \<in> set (outage env_down))
          (map u_id (users backend1)) record2 (refresh_tokens backend1)) = Some unavailable"
    by (simp add: upsert_refresh_token_def scenario_defs)
  have returned: "refreshTokens env_down (RefreshTokenDto token1) backend1 =
       (Inr \<lparr>new_access = access2, new_refreshToken = token2\<rparr>, backend1)"
    by (simp add: service_defs scenario_defs)
  have kept: "refresh_tokens backend1 = [record1]"
    by (simp add: scenario_defs)
  show ?thesis using failed returned kept by simp
qed

text \<open>
  C9. Single-row validation: validateRefreshToken returns true only if exactly one
  unexpired record of the user is stored and its hash matches the token; with no such
  record or more than one it returns false, whatever the stored hashes are.
\<close>

theorem validateRefreshToken_single_row:
  "(validateRefreshToken e userId refreshToken s \<longrightarrow>
      (\<exists>r. filter (\<lambda>r. t_user_id r = userId \<and> now e \<le> t_expires_at r) (refresh_tokens s) = [r]
           \<and> bcrypt_compare refreshToken (t_token_hash r)))
   \<and> (length (filter (\<lambda>r. t_user_id r = userId \<and> now e \<le> t_expires_at r) (refresh_tokens s)) \<noteq> 1
        \<longrightarrow> \<not> validateRefreshToken e userId refreshToken s)"
  by (auto simp: validateRefreshToken_def select_single_def split: list.splits if_splits)

theorem validateRefreshToken_single_row_witness:
  "validateRefreshToken env2 ''uuid-U1'' token1 backend1
   \<and> filter (\<lambda>r. t_user_id r = ''uuid-U1'' \<and> now env2 \<le> t_expires_at r) (refresh_tokens backend1) = [record1]
   \<and> bcrypt_compare token1 (t_token_hash record1)
   \<and> length (filter (\<lambda>r. t_user_id r = ''uuid-U1'' \<and> now env3 \<le> t_expires_at r) (refresh_tokens backend2)) = 2
   \<and> record1 \<in> set (refresh_tokens backend2)
   \<and> \<not> validateRefreshToken env3 ''uuid-U1'' token1 backend2"
proof -
  have valid: "validateRefreshToken env2 ''uuid-U1'' token1 backend1"
    by (simp add: service_defs scenario_defs)
  have two: "length (filter (\<lambda>r. t_user_id r = ''uuid-U1'' \<and> now env3 \<le> t_expires_at r)
               (refresh_tokens backend2)) = 2"
    by (simp add: scenario_defs)
  show ?thesis
    using valid two
      validateRefreshToken_single_row [of env2 "''uuid-U1''" token1 backend1]
      validateRefreshToken_single_row [of env3 "''uuid-U1''" token1 backend2]
    by (simp add: scenario_defs bcrypt_compare_def bcrypt_hash_def)
qed

text \<open>
  C10. Work factors: the password that signUp stores is hashed with 12 rounds
  (saltRounds); the hash that storeRefreshToken writes has 8 rounds; and the hash by
  which revokeRefreshToken deletes has 8 rounds.
\<close>

theorem work_factors:
  "saltRounds = 12
   \<and> (signUp ea (SignUpDto email password firstName lastName) sa = (Inr response, sa') \<longrightarrow>
        (\<forall>u\<in>set (users sa'). u \<notin> set (users sa) \<longrightarrow>
           u_password u = bcrypt_hash password saltRounds (pw_salt ea)
           \<and> bcrypt_rounds (u_password u) = Some 12))
   \<and> (\<forall>r\<in>set (refresh_tokens (storeRefreshToken eb userId tokb sb)).
        r \<notin> set (refresh_tokens sb) \<longrightarrow>
           t_token_hash r = bcrypt_hash tokb 8 (store_salt eb)
           \<and> bcrypt_rounds (t_token_hash r) = Some 8)
   \<and> (revokeRefreshToken ec tokc sc = Inr sc' \<longrightarrow>
        (\<forall>r\<in>set (refresh_tokens sc). r \<notin> set (refresh_tokens sc') \<longrightarrow>
           t_token_hash r = bcrypt_hash tokc 8 (revoke_salt ec)
           \<and> bcrypt_rounds (t_token_hash r) = Some 8))"
proof -
  have rounds: "saltRounds = 12"
    by (simp add: saltRounds_def)
  have password: "signUp ea (SignUpDto email password firstName lastName) sa = (Inr response, sa') \<Longrightarrow>
        \<forall>u\<in>set (users sa'). u \<notin> set (users sa) \<longrightarrow>
           u_password u = bcrypt_hash password saltRounds (pw_salt ea)
           \<and> bcrypt_rounds (u_password u) = Some 12"
    by (auto simp: signUp_success(2) bcrypt_hash_def saltRounds_def)
  have stored: "\<forall>r\<in>set (refresh_tokens (storeRefreshToken eb userId tokb sb)).
        r \<notin> set (refresh_tokens sb) \<longrightarrow>
           t_token_hash r = bcrypt_hash tokb 8 (store_salt eb)
           \<and> bcrypt_rounds (t_token_hash r) = Some 8"
    by (auto simp: storeRefreshToken_def upsert_refresh_token_def bcrypt_hash_def Let_def
          split: if_splits)
  have revoked: "revokeRefreshToken ec tokc sc = Inr sc' \<Longrightarrow>
        \<forall>r\<in>set (refresh_tokens sc). r \<notin> set (refresh_tokens sc') \<longrightarrow>
           t_token_hash r = bcrypt_hash tokc 8 (revoke_salt ec)
           \<and> bcrypt_rounds (t_token_hash r) = Some 8"
    by (auto simp: revokeRefreshToken_def delete_refresh_tokens_def bcrypt_hash_def Let_def
          split: sum.splits if_splits)
  show ?thesis using rounds password stored revoked by blast
qed

theorem work_factors_witness:
  "signUp env1 (SignUpDto ''a@b.com'' (Str ''Str0ng!Passw0rd'') ''Ayse'' ''Demir'') boot =
     (Inr \<lparr>res_accessToken = access1, res_refreshToken = token1,
           res_user = \<lparr>a_id = ''uuid-U1'', a_email = ''a@b.com'',
                       a_firstName = ''Ayse'', a_lastName = ''Demir''\<rparr>\<rparr>, backend1)
   \<and> (alice_row \<in> set (users backend1) \<and> alice_row \<notin> set (users boot))
   \<and> bcrypt_rounds (u_password alice_row) = Some 12
   \<and> storeRefreshToken env2 ''uuid-U1'' token2 backend1 = backend2
   \<and> (record2 \<in> set (refresh_tokens backend2) \<and> record2 \<notin> set (refresh_tokens backend1))
   \<and> bcrypt_rounds (t_token_hash record2) = Some 8
   \<and> revokeRefreshToken env_same_salt token1 backend1 = Inr (backend1\<lparr>refresh_tokens := []\<rparr>)
   \<and> (record1 \<in> set (refresh_tokens backend1)
      \<and> record1 \<notin> set (refresh_tokens (backend1\<lparr>refresh_tokens := []\<rparr>)))
   \<and> bcrypt_rounds (t_token_hash record1) = Some 8"
proof -
  have stored: "storeRefreshToken env2 ''uuid-U1'' token2 backend1 = backend2"
    by (simp add: service_defs scenario_defs)
  have revoked: "revokeRefreshToken env_same_salt token1 backend1 = Inr (backend1\<lparr>refresh_tokens := []\<rparr>)"
    by (simp add: service_defs scenario_defs)
  have new_user: "alice_row \<in> set (users backend1) \<and> alice_row \<notin> set (users boot)"
    by (simp add: scenario_defs)
  have new_record: "record2 \<in> set (refresh_tokens backend2) \<and> record2 \<notin> set (refresh_tokens backend1)"
    by (simp add: scenario_defs)
  have gone: "record1 \<in> set (refresh_tokens backend1)
      \<and> record1 \<notin> set (refresh_tokens (backend1\<lparr>refresh_tokens := []\<rparr>))"
    by (simp add: scenario_defs)
  note factors = work_factors [where ea = env1 and email = "''a@b.com''"
          and password = "Str ''Str0ng!Passw0rd''"
          and firstName = "''Ayse''" and lastName = "''Demir''" and sa = boot and sa' = backend1
          and response = "\<lparr>res_accessToken = access1, res_refreshToken = token1,
              res_user = \<lparr>a_id = ''uuid-U1'', a_email = ''a@b.com'',
                          a_firstName = ''Ayse'', a_lastName = ''Demir''\<rparr>\<rparr>"
          and eb = env2 and userId = "''uuid-U1''" and tokb = token2 and sb = backend1
          and ec = env_same_salt and tokc = token1 and sc = backend1
          and sc' = "backend1\<lparr>refresh_tokens := []\<rparr>"]
  have password: "bcrypt_rounds (u_password alice_row) = Some 12"
    using factors signUp_alice new_user by blast
  have store: "bcrypt_rounds (t_token_hash record2) = Some 8"
    using factors new_record unfolding stored by blast
  have revoke: "bcrypt_rounds (t_token_hash record1) = Some 8"
    using factors revoked gone by blast
  show ?thesis
    using signUp_alice stored revoked new_user new_record gone password store revoke
    by blast
qed

end
